theory Spec2Isabelle
  imports Main
begin

section \<open>The observable stream primitive of \<^verbatim>\<open>src/index.ts\<close>\<close>

text \<open>
  The TypeScript source defines two classes, \<^verbatim>\<open>Observer\<close> and \<^verbatim>\<open>Observable\<close>, whose
  methods mutate the observer object and call user-supplied callbacks. The embedding
  passes state explicitly. A callback (a handler, a teardown action, \<^verbatim>\<open>console.log\<close>) is
  a function on a world \<open>'w\<close> that stands for everything outside the observer: calling the
  callback is applying it to the world. A callback is taken to return normally and to
  touch nothing of the observer itself; the source contains no \<^verbatim>\<open>throw\<close> and guards every
  optional call by a presence check, so the methods themselves have no failing branch.
  A handler that holds the observer and calls one of its methods while it runs is not a
  function on the world alone; the subsection on handlers that call back into the observer
  gives the methods once more for such handlers, and C2 is where they matter.

  Names follow the source. \<^verbatim>\<open>next\<close> is a keyword of the proof language, so the three
  handler fields carry the suffix \<open>_handler\<close>; the fields \<^verbatim>\<open>_unsubscribe\<close> and
  \<^verbatim>\<open>_subscribe\<close> are written \<open>u_unsubscribe\<close> and \<open>u_subscribe\<close>, an identifier
  cannot begin with an underscore.
\<close>

subsection \<open>Data\<close>

text \<open>\<^verbatim>\<open>interface ObserverHandlers<T, E>\<close>: three optional callbacks.\<close>

record ('t, 'e, 'w) ObserverHandlers =
  next_handler :: "('t \<Rightarrow> 'w \<Rightarrow> 'w) option"
  error_handler :: "('e \<Rightarrow> 'w \<Rightarrow> 'w) option"
  complete_handler :: "('w \<Rightarrow> 'w) option"

text \<open>
  \<^verbatim>\<open>class Observer<T, E>\<close>: the private flag \<^verbatim>\<open>isUnsubscribed\<close> (initially false), the
  public optional \<^verbatim>\<open>_unsubscribe\<close> (initially undefined) and the handlers given to the
  constructor.
\<close>

record ('t, 'e, 'w) Observer =
  handlers :: "('t, 'e, 'w) ObserverHandlers"
  isUnsubscribed :: bool
  u_unsubscribe :: "('w \<Rightarrow> 'w) option"

text \<open>The state a method runs in: the observer object and the world.\<close>

type_synonym ('t, 'e, 'w) state = "('t, 'e, 'w) Observer \<times> 'w"

definition new_Observer :: "('t, 'e, 'w) ObserverHandlers \<Rightarrow> ('t, 'e, 'w) Observer" where
  "new_Observer h = \<lparr>handlers = h, isUnsubscribed = False, u_unsubscribe = None\<rparr>"

subsection \<open>The methods of \<^verbatim>\<open>Observer\<close>\<close>

text \<open>
  \<^verbatim>\<open>unsubscribe()\<close> sets the flag and then calls \<^verbatim>\<open>_unsubscribe\<close> when it is defined. It
  reads no flag before doing so, and it never clears \<^verbatim>\<open>_unsubscribe\<close>.
\<close>

fun Observer_unsubscribe :: "('t, 'e, 'w) state \<Rightarrow> ('t, 'e, 'w) state" where
  "Observer_unsubscribe (this, w) =
     (let this' = this\<lparr>isUnsubscribed := True\<rparr> in
      case u_unsubscribe this' of
        Some f \<Rightarrow> (this', f w)
      | None \<Rightarrow> (this', w))"

text \<open>\<^verbatim>\<open>next(value)\<close>: the handler runs when it is present and the flag is not set.\<close>

fun Observer_next :: "'t \<Rightarrow> ('t, 'e, 'w) state \<Rightarrow> ('t, 'e, 'w) state" where
  "Observer_next v (this, w) =
     (case next_handler (handlers this) of
        Some h \<Rightarrow> if \<not> isUnsubscribed this then (this, h v w) else (this, w)
      | None \<Rightarrow> (this, w))"

text \<open>
  \<^verbatim>\<open>error(error)\<close>: when the flag is not set, the handler runs if present and then
  \<^verbatim>\<open>this.unsubscribe()\<close> is called; otherwise nothing happens.
\<close>

fun Observer_error :: "'e \<Rightarrow> ('t, 'e, 'w) state \<Rightarrow> ('t, 'e, 'w) state" where
  "Observer_error err (this, w) =
     (if \<not> isUnsubscribed this then
        Observer_unsubscribe
          (case error_handler (handlers this) of
             Some h \<Rightarrow> (this, h err w)
           | None \<Rightarrow> (this, w))
      else (this, w))"

text \<open>\<^verbatim>\<open>complete()\<close>: the same shape as \<^verbatim>\<open>error\<close>, with the complete handler.\<close>

fun Observer_complete :: "('t, 'e, 'w) state \<Rightarrow> ('t, 'e, 'w) state" where
  "Observer_complete (this, w) =
     (if \<not> isUnsubscribed this then
        Observer_unsubscribe
          (case complete_handler (handlers this) of
             Some h \<Rightarrow> (this, h w)
           | None \<Rightarrow> (this, w))
      else (this, w))"

subsection \<open>\<^verbatim>\<open>Observable\<close> and \<^verbatim>\<open>Subscription\<close>\<close>

text \<open>
  \<^verbatim>\<open>interface Subscription\<close> has the single method \<^verbatim>\<open>unsubscribe\<close>. The object that
  \<^verbatim>\<open>subscribe\<close> returns closes over the observer; here the method acts on the state that
  holds this observer.
\<close>

record ('t, 'e, 'w) Subscription =
  unsubscribe :: "('t, 'e, 'w) state \<Rightarrow> ('t, 'e, 'w) state"

text \<open>
  \<^verbatim>\<open>class Observable<T, E>\<close> stores the producer \<^verbatim>\<open>_subscribe\<close>, a function that receives
  the observer, may call its methods, and returns the teardown action.
\<close>

record ('t, 'e, 'w) Observable =
  u_subscribe :: "('t, 'e, 'w) state \<Rightarrow> ('w \<Rightarrow> 'w) \<times> ('t, 'e, 'w) state"

text \<open>\<^verbatim>\<open>values.forEach((value) => observer.next(value))\<close>: left to right.\<close>

fun forEach :: "'t list \<Rightarrow> ('t \<Rightarrow> 's \<Rightarrow> 's) \<Rightarrow> 's \<Rightarrow> 's" where
  "forEach [] f s = s"
| "forEach (value # values) f s = forEach values f (f value s)"

text \<open>
  \<^verbatim>\<open>Observable.from(values)\<close>: the producer sends every value, calls \<^verbatim>\<open>complete()\<close> and
  returns the teardown \<^verbatim>\<open>() => { console.log("unsubscribed") }\<close>. The console belongs to
  the world, so \<^verbatim>\<open>console.log\<close> is a parameter.
\<close>

definition Observable_from ::
  "(string \<Rightarrow> 'w \<Rightarrow> 'w) \<Rightarrow> 't list \<Rightarrow> ('t, 'e, 'w) Observable" where
  "Observable_from console_log values =
     \<lparr>u_subscribe = (\<lambda>observer.
        let s1 = forEach values Observer_next observer;
            s2 = Observer_complete s1
        in (console_log ''unsubscribed'', s2))\<rparr>"

text \<open>
  \<^verbatim>\<open>subscribe(obs)\<close>: a fresh observer, the producer run on it, and only then the
  assignment of the returned teardown to \<^verbatim>\<open>observer._unsubscribe\<close>.
\<close>

definition Observable_subscribe ::
  "('t, 'e, 'w) Observable \<Rightarrow> ('t, 'e, 'w) ObserverHandlers \<Rightarrow> 'w
     \<Rightarrow> ('t, 'e, 'w) Subscription \<times> ('t, 'e, 'w) state" where
  "Observable_subscribe this obs w =
     (let observer = new_Observer obs;
          (teardown, observer', w') = u_subscribe this (observer, w)
      in (\<lparr>unsubscribe = Observer_unsubscribe\<rparr>,
          (observer'\<lparr>u_unsubscribe := Some teardown\<rparr>, w')))"

subsection \<open>Scripts of calls and recorded callbacks\<close>

text \<open>
  The properties below speak of sequences of method calls and of which callbacks were
  invoked, how often and in which order. A call is a value of \<open>call\<close>; a producer that
  makes a fixed sequence of calls on its observer and returns a given teardown is
  \<open>script_producer\<close>. Calls made on the observer after \<^verbatim>\<open>subscribe\<close> has returned (an
  asynchronous producer, or the holder of the subscription) are further calls on the state
  that \<^verbatim>\<open>subscribe\<close> left.
\<close>

datatype ('t, 'e) call = Next 't | Error 'e | Complete | Unsubscribe

fun do_call :: "('t, 'e) call \<Rightarrow> ('t, 'e, 'w) state \<Rightarrow> ('t, 'e, 'w) state" where
  "do_call (Next v) s = Observer_next v s"
| "do_call (Error e) s = Observer_error e s"
| "do_call Complete s = Observer_complete s"
| "do_call Unsubscribe s = Observer_unsubscribe s"

definition run_calls ::
  "('t, 'e) call list \<Rightarrow> ('t, 'e, 'w) state \<Rightarrow> ('t, 'e, 'w) state" where
  "run_calls cs s = forEach cs do_call s"

fun is_terminal :: "('t, 'e) call \<Rightarrow> bool" where
  "is_terminal (Next v) = False"
| "is_terminal _ = True"

definition script_producer ::
  "('t, 'e) call list \<Rightarrow> ('w \<Rightarrow> 'w) \<Rightarrow> ('t, 'e, 'w) Observable" where
  "script_producer cs teardown =
     \<lparr>u_subscribe = (\<lambda>observer. (teardown, run_calls cs observer))\<rparr>"

text \<open>The handlers object \<^verbatim>\<open>{}\<close>.\<close>

definition empty_handlers :: "('t, 'e, 'w) ObserverHandlers" where
  "empty_handlers =
     \<lparr>next_handler = None, error_handler = None, complete_handler = None\<rparr>"

text \<open>
  To count invocations the world is a trace, the list of callbacks invoked so far, and
  every callback appends its own event. \<open>log_handlers hn he hc\<close> has a recording handler
  for each flag that is set, \<open>log_teardown\<close> is a recording teardown, \<open>console_log\<close>
  records the line printed. \<open>log_observer hn he hc ht b\<close> is an observer with such
  handlers, with the recording teardown assigned when \<open>ht\<close> holds, and with
  \<^verbatim>\<open>isUnsubscribed\<close> equal to \<open>b\<close>.
\<close>

datatype ('t, 'e) event =
  CalledNext 't | CalledError 'e | CalledComplete | CalledTeardown | ConsoleLog string

type_synonym ('t, 'e) trace = "('t, 'e) event list"

definition log_handlers ::
  "bool \<Rightarrow> bool \<Rightarrow> bool \<Rightarrow> ('t, 'e, ('t, 'e) trace) ObserverHandlers" where
  "log_handlers hn he hc =
     \<lparr>next_handler = (if hn then Some (\<lambda>v w. w @ [CalledNext v]) else None),
      error_handler = (if he then Some (\<lambda>e w. w @ [CalledError e]) else None),
      complete_handler = (if hc then Some (\<lambda>w. w @ [CalledComplete]) else None)\<rparr>"

definition log_teardown :: "('t, 'e) trace \<Rightarrow> ('t, 'e) trace" where
  "log_teardown w = w @ [CalledTeardown]"

definition console_log :: "string \<Rightarrow> ('t, 'e) trace \<Rightarrow> ('t, 'e) trace" where
  "console_log msg w = w @ [ConsoleLog msg]"

definition log_observer ::
  "bool \<Rightarrow> bool \<Rightarrow> bool \<Rightarrow> bool \<Rightarrow> bool \<Rightarrow> ('t, 'e, ('t, 'e) trace) Observer" where
  "log_observer hn he hc ht b =
     \<lparr>handlers = log_handlers hn he hc, isUnsubscribed = b,
      u_unsubscribe = (if ht then Some log_teardown else None)\<rparr>"



subsection \<open>The events of a recording observer\<close>

text \<open>
  What one call appends to the trace of \<open>log_observer hn he hc ht b\<close>, and what a
  sequence of calls appends. Both are read off the methods; \<open>do_call_log_observer\<close> and
  \<open>run_calls_log_observer\<close> below prove that the methods do exactly this. They serve the
  proofs only, no claim is stated in their terms.
\<close>

fun emitted ::
  "bool \<Rightarrow> bool \<Rightarrow> bool \<Rightarrow> bool \<Rightarrow> bool \<Rightarrow> ('t, 'e) call \<Rightarrow> ('t, 'e) trace" where
  "emitted hn he hc ht b (Next v) = (if hn \<and> \<not> b then [CalledNext v] else [])"
| "emitted hn he hc ht b (Error e) =
     (if b then []
      else (if he then [CalledError e] else []) @ (if ht then [CalledTeardown] else []))"
| "emitted hn he hc ht b Complete =
     (if b then []
      else (if hc then [CalledComplete] else []) @ (if ht then [CalledTeardown] else []))"
| "emitted hn he hc ht b Unsubscribe = (if ht then [CalledTeardown] else [])"

fun emitted_all ::
  "bool \<Rightarrow> bool \<Rightarrow> bool \<Rightarrow> bool \<Rightarrow> bool \<Rightarrow> ('t, 'e) call list \<Rightarrow> ('t, 'e) trace" where
  "emitted_all hn he hc ht b [] = []"
| "emitted_all hn he hc ht b (c # cs) =
     emitted hn he hc ht b c @ emitted_all hn he hc ht (b \<or> is_terminal c) cs"

subsection \<open>Handlers that call back into the observer\<close>

text \<open>
  A handler is a closure; it can hold the observer (the producer receives it, the
  subscription wraps it) and call \<^verbatim>\<open>next\<close>, \<^verbatim>\<open>error\<close>, \<^verbatim>\<open>complete\<close> or \<^verbatim>\<open>unsubscribe\<close>
  on it while it runs. For such handlers a callback acts on a \<open>heap\<close>: the two mutable
  fields of the observer together with the world. The handlers object is the record
  \<open>ObserverHandlers\<close> as before, with the heap where the world was, and is passed to the
  methods, since the field \<^verbatim>\<open>handlers\<close> is never assigned after the constructor. The
  four methods are the same lines of the source: in \<^verbatim>\<open>error\<close> and \<^verbatim>\<open>complete\<close> the
  handler runs first, on a heap whose flag is still unset, and \<^verbatim>\<open>this.unsubscribe()\<close>
  then runs on the heap the handler left. The teardown stays a function on the world.
\<close>

record 'w heap =
  heap_isUnsubscribed :: bool
  heap_u_unsubscribe :: "('w \<Rightarrow> 'w) option"
  heap_world :: 'w

definition heap_unsubscribe :: "'w heap \<Rightarrow> 'w heap" where
  "heap_unsubscribe s =
     (let s' = s\<lparr>heap_isUnsubscribed := True\<rparr> in
      case heap_u_unsubscribe s' of
        Some f \<Rightarrow> s'\<lparr>heap_world := f (heap_world s')\<rparr>
      | None \<Rightarrow> s')"

definition heap_next ::
  "('t, 'e, 'w heap) ObserverHandlers \<Rightarrow> 't \<Rightarrow> 'w heap \<Rightarrow> 'w heap" where
  "heap_next hs v s =
     (case next_handler hs of
        Some h \<Rightarrow> if \<not> heap_isUnsubscribed s then h v s else s
      | None \<Rightarrow> s)"

definition heap_error ::
  "('t, 'e, 'w heap) ObserverHandlers \<Rightarrow> 'e \<Rightarrow> 'w heap \<Rightarrow> 'w heap" where
  "heap_error hs err s =
     (if \<not> heap_isUnsubscribed s then
        heap_unsubscribe
          (case error_handler hs of
             Some h \<Rightarrow> h err s
           | None \<Rightarrow> s)
      else s)"

definition heap_complete ::
  "('t, 'e, 'w heap) ObserverHandlers \<Rightarrow> 'w heap \<Rightarrow> 'w heap" where
  "heap_complete hs s =
     (if \<not> heap_isUnsubscribed s then
        heap_unsubscribe
          (case complete_handler hs of
             Some h \<Rightarrow> h s
           | None \<Rightarrow> s)
      else s)"

fun heap_do_call ::
  "('t, 'e, 'w heap) ObserverHandlers \<Rightarrow> ('t, 'e) call \<Rightarrow> 'w heap \<Rightarrow> 'w heap" where
  "heap_do_call hs (Next v) s = heap_next hs v s"
| "heap_do_call hs (Error e) s = heap_error hs e s"
| "heap_do_call hs Complete s = heap_complete hs s"
| "heap_do_call hs Unsubscribe s = heap_unsubscribe s"

text \<open>
  A callback that acts outside the observer only, as a callback on the heap; the handlers
  of the first model as handlers on the heap; a state of the first model as a heap.
\<close>

definition outside :: "('w \<Rightarrow> 'w) \<Rightarrow> 'w heap \<Rightarrow> 'w heap" where
  "outside f s = s\<lparr>heap_world := f (heap_world s)\<rparr>"

definition outside_handlers ::
  "('t, 'e, 'w) ObserverHandlers \<Rightarrow> ('t, 'e, 'w heap) ObserverHandlers" where
  "outside_handlers hs =
     \<lparr>next_handler = map_option (\<lambda>h v. outside (h v)) (next_handler hs),
      error_handler = map_option (\<lambda>h e. outside (h e)) (error_handler hs),
      complete_handler = map_option outside (complete_handler hs)\<rparr>"

fun heap_of :: "('t, 'e, 'w) state \<Rightarrow> 'w heap" where
  "heap_of (this, w) =
     \<lparr>heap_isUnsubscribed = isUnsubscribed this, heap_u_unsubscribe = u_unsubscribe this,
      heap_world = w\<rparr>"

text \<open>
  The handlers \<^verbatim>\<open>{ error: e => { record(e); o.complete() }, complete: () => record() }\<close>
  of an observer \<^verbatim>\<open>o\<close>. \<^verbatim>\<open>o.complete()\<close> reads nothing of the handlers but
  \<^verbatim>\<open>handlers.complete\<close>, so the error handler is written with \<open>complete_only_handlers\<close>;
  \<open>completing_error_handler_calls_complete\<close> below shows that it is \<^verbatim>\<open>complete\<close> on
  the observer that has these very handlers.
\<close>

definition complete_only_handlers ::
  "('t, 'e, ('t, 'e) trace heap) ObserverHandlers" where
  "complete_only_handlers =
     \<lparr>next_handler = None, error_handler = None,
      complete_handler = Some (outside (\<lambda>w. w @ [CalledComplete]))\<rparr>"

definition completing_error_handlers ::
  "('t, 'e, ('t, 'e) trace heap) ObserverHandlers" where
  "completing_error_handlers =
     \<lparr>next_handler = None,
      error_handler = Some (\<lambda>e s.
        heap_complete
          (complete_only_handlers :: ('t, 'e, ('t, 'e) trace heap) ObserverHandlers)
          (outside (\<lambda>w. w @ [CalledError e]) s)),
      complete_handler = Some (outside (\<lambda>w. w @ [CalledComplete]))\<rparr>"

section \<open>Basic facts about the methods\<close>

lemma forEach_append: "forEach (xs @ ys) f s = forEach ys f (forEach xs f s)"
  by (induction xs arbitrary: s) auto

lemma run_calls_simps [simp]:
  "run_calls [] s = s"
  "run_calls (c # cs) s = run_calls cs (do_call c s)"
  "run_calls (xs @ ys) s = run_calls ys (run_calls xs s)"
  by (simp_all add: run_calls_def forEach_append)

text \<open>Once the flag is set, only \<^verbatim>\<open>unsubscribe\<close> still does anything.\<close>

lemma do_call_terminated:
  "isUnsubscribed (fst s) \<Longrightarrow> c \<noteq> Unsubscribe \<Longrightarrow> do_call c s = s"
  by (cases s; cases c) (auto simp: Let_def split: option.splits)

lemma do_call_fields:
  "handlers (fst (do_call c s)) = handlers (fst s)"
  "u_unsubscribe (fst (do_call c s)) = u_unsubscribe (fst s)"
  by (cases s; cases c; auto simp: Let_def split: option.splits)+

lemma run_calls_terminated:
  "isUnsubscribed (fst s) \<Longrightarrow> Unsubscribe \<notin> set cs \<Longrightarrow> run_calls cs s = s"
  by (induction cs arbitrary: s) (auto simp: do_call_terminated)

lemma run_calls_handlers: "handlers (fst (run_calls cs s)) = handlers (fst s)"
  by (induction cs arbitrary: s) (simp_all add: do_call_fields)

lemma run_calls_u_unsubscribe:
  "u_unsubscribe (fst (run_calls cs s)) = u_unsubscribe (fst s)"
  by (induction cs arbitrary: s) (simp_all add: do_call_fields)

lemma unsubscribe_funpow:
  "(Observer_unsubscribe ^^ Suc n) (obs, w) =
     (obs\<lparr>isUnsubscribed := True\<rparr>,
      case u_unsubscribe obs of Some td \<Rightarrow> (td ^^ Suc n) w | None \<Rightarrow> w)"
  by (induction n) (auto simp: Let_def split: option.splits)

lemma log_teardown_funpow: "(log_teardown ^^ n) w = w @ replicate n CalledTeardown"
  by (induction n arbitrary: w) (auto simp: log_teardown_def replicate_append_same)

lemma do_call_isUnsubscribed:
  "isUnsubscribed (fst (do_call c s)) \<longleftrightarrow> isUnsubscribed (fst s) \<or> is_terminal c"
  by (cases s; cases c) (simp_all add: Let_def split: option.splits)

lemma run_calls_isUnsubscribed:
  "isUnsubscribed (fst (run_calls cs s)) \<longleftrightarrow>
     isUnsubscribed (fst s) \<or> list_ex is_terminal cs"
  by (induction cs arbitrary: s) (simp_all add: do_call_isUnsubscribed)

text \<open>With no handler and no teardown assigned, a call leaves the world alone.\<close>

lemma do_call_discards:
  "handlers (fst s) = empty_handlers \<Longrightarrow> u_unsubscribe (fst s) = None \<Longrightarrow>
     snd (do_call c s) = snd s"
  by (cases s; cases c) (simp_all add: empty_handlers_def Let_def)

lemma run_calls_discards:
  "handlers (fst s) = empty_handlers \<Longrightarrow> u_unsubscribe (fst s) = None \<Longrightarrow>
     snd (run_calls cs s) = snd s"
  by (induction cs arbitrary: s) (simp_all add: do_call_discards do_call_fields)

text \<open>The loop of \<^verbatim>\<open>from\<close> on a live observer with a next handler.\<close>

lemma forEach_next_handler:
  "next_handler (handlers obs) = Some f \<Longrightarrow> \<not> isUnsubscribed obs \<Longrightarrow>
     forEach vs Observer_next (obs, w) = (obs, forEach vs f w)"
  by (induction vs arbitrary: w) simp_all

lemma forEach_next: "forEach vs Observer_next s = run_calls (map Next vs) s"
  by (induction vs arbitrary: s) simp_all

text \<open>The producer of \<^verbatim>\<open>from\<close> is a script: the values, then \<^verbatim>\<open>complete()\<close>.\<close>

lemma from_script:
  "Observable_from clog vs =
     script_producer (map Next vs @ [Complete]) (clog ''unsubscribed'')"
  by (simp add: Observable_from_def script_producer_def forEach_next Let_def)

lemma subscribe_script:
  "Observable_subscribe (script_producer cs td) h w =
     (\<lparr>unsubscribe = Observer_unsubscribe\<rparr>,
      (fst (run_calls cs (new_Observer h, w)))\<lparr>u_unsubscribe := Some td\<rparr>,
      snd (run_calls cs (new_Observer h, w)))"
  by (simp add: Observable_subscribe_def script_producer_def split: prod.splits)

subsection \<open>Recording observers\<close>

lemma do_call_log_observer:
  "do_call c (log_observer hn he hc ht b, w) =
     (log_observer hn he hc ht (b \<or> is_terminal c), w @ emitted hn he hc ht b c)"
  by (cases c) (simp_all add: log_observer_def log_handlers_def log_teardown_def Let_def)

lemma run_calls_log_observer:
  "run_calls cs (log_observer hn he hc ht b, w) =
     (log_observer hn he hc ht (b \<or> list_ex is_terminal cs),
      w @ emitted_all hn he hc ht b cs)"
  by (induction cs arbitrary: b w) (simp_all add: do_call_log_observer disj_assoc)




lemma emitted_all_no_teardown:
  "CalledTeardown \<notin> set (emitted_all hn he hc False b cs)"
proof (induction cs arbitrary: b)
  case Nil
  show ?case by simp
next
  case (Cons c cs)
  from Cons [of True] Cons [of b] show ?case by (cases c) simp_all
qed

lemma emitted_all_nexts:
  "emitted_all hn he hc ht False (map Next vs @ cs) =
     (if hn then map CalledNext vs else []) @ emitted_all hn he hc ht False cs"
  by (induction vs) simp_all

lemma new_Observer_log:
  "new_Observer (log_handlers hn he hc) = log_observer hn he hc False False"
  by (simp add: new_Observer_def log_observer_def)

lemma log_observer_assign:
  "(log_observer hn he hc False b)\<lparr>u_unsubscribe := Some log_teardown\<rparr> =
     log_observer hn he hc True b"
  by (simp add: log_observer_def)

lemma subscribe_script_log:
  "Observable_subscribe (script_producer cs td) (log_handlers hn he hc) tr =
     (\<lparr>unsubscribe = Observer_unsubscribe\<rparr>,
      (log_observer hn he hc False (list_ex is_terminal cs))\<lparr>u_unsubscribe := Some td\<rparr>,
      tr @ emitted_all hn he hc False False cs)"
  by (simp add: subscribe_script new_Observer_log run_calls_log_observer)

lemma subscribe_from_log:
  "Observable_subscribe (Observable_from console_log vs) (log_handlers hn he hc) tr =
     (\<lparr>unsubscribe = Observer_unsubscribe\<rparr>,
      (log_observer hn he hc False True)
        \<lparr>u_unsubscribe := Some (console_log ''unsubscribed'')\<rparr>,
      tr @ (if hn then map CalledNext vs else []) @ (if hc then [CalledComplete] else []))"
  by (simp add: from_script subscribe_script_log emitted_all_nexts)

subsection \<open>Handlers on the heap\<close>

text \<open>
  With handlers that act outside the observer only, the methods on the heap are the
  methods of the first model, call by call and for every sequence of calls.
\<close>

lemma heap_do_call_outside:
  "heap_do_call (outside_handlers (handlers (fst s))) c (heap_of s) = heap_of (do_call c s)"
  by (cases s; cases c)
     (auto simp: heap_next_def heap_error_def heap_complete_def heap_unsubscribe_def
        outside_handlers_def outside_def Let_def split: option.splits)

lemma heap_forEach_outside:
  "forEach cs (heap_do_call (outside_handlers (handlers (fst s)))) (heap_of s) =
     heap_of (run_calls cs s)"
proof (induction cs arbitrary: s)
  case Nil
  show ?case by simp
next
  case (Cons c cs)
  from Cons [of "do_call c s"] show ?case
    by (simp add: heap_do_call_outside do_call_fields)
qed

lemma heap_complete_reads_complete_handler:
  "complete_handler hs = complete_handler hs' \<Longrightarrow> heap_complete hs s = heap_complete hs' s"
  by (simp add: heap_complete_def)

lemma completing_error_handler_calls_complete:
  "error_handler completing_error_handlers =
     Some (\<lambda>e s. heap_complete completing_error_handlers
                    (outside (\<lambda>w. w @ [CalledError e]) s))"
  unfolding completing_error_handlers_def
  by (simp, intro ext heap_complete_reads_complete_handler)
     (simp add: complete_only_handlers_def)

section \<open>The claims\<close>

subsection \<open>C1: repeated \<^verbatim>\<open>unsubscribe()\<close>\<close>

text \<open>
  C1 as the specification states it: calling \<^verbatim>\<open>unsubscribe()\<close> N \<ge> 1 times invokes the
  teardown exactly once, or not at all if an earlier terminal event has consumed it. The
  method has no such guard: it calls \<^verbatim>\<open>_unsubscribe\<close> whenever it is defined. Two calls
  on a fresh observer with a teardown invoke it twice, and after \<^verbatim>\<open>error("boom")\<close> has
  invoked it, one \<^verbatim>\<open>unsubscribe()\<close> invokes it a second time.
\<close>

theorem unsubscribe_twice_counterexample:
  "\<not> count_list (snd ((Observer_unsubscribe ^^ 2)
        (log_observer True True True True False
           :: (nat, string, (nat, string) trace) Observer, []))) CalledTeardown \<le> 1
   \<and> \<not> count_list (snd (Observer_unsubscribe (Observer_error ''boom''
        (log_observer True True True True False
           :: (nat, string, (nat, string) trace) Observer, [])))) CalledTeardown \<le> 1"
  by (simp add: log_observer_def log_handlers_def log_teardown_def numeral_2_eq_2)

text \<open>
  C1, amended: calling \<^verbatim>\<open>unsubscribe()\<close> N \<ge> 1 times sets the flag and invokes the
  teardown once per call, N times in all, when a teardown is assigned, and never when
  none is assigned. The first conjunct says it for any teardown on any world, the other
  two count the invocations on a trace.
\<close>

theorem unsubscribe_n_times:
  "(Observer_unsubscribe ^^ Suc n) (obs, w) =
     (obs\<lparr>isUnsubscribed := True\<rparr>,
      case u_unsubscribe obs of Some td \<Rightarrow> (td ^^ Suc n) w | None \<Rightarrow> w)
   \<and> snd ((Observer_unsubscribe ^^ Suc n) (log_observer hn he hc True b, tr)) =
       tr @ replicate (Suc n) CalledTeardown
   \<and> snd ((Observer_unsubscribe ^^ Suc n) (log_observer hn he hc False b, tr)) = tr"
  unfolding unsubscribe_funpow
  by (simp add: log_observer_def log_teardown_funpow del: funpow.simps)

subsection \<open>C2: at most one terminal notification\<close>




subsection \<open>C3: the teardown of a producer that completes synchronously\<close>

text \<open>
  C3: when the producer calls \<^verbatim>\<open>complete()\<close> before it returns its teardown, as the
  producer of \<^verbatim>\<open>Observable.from\<close> does, \<^verbatim>\<open>subscribe\<close> does not invoke that teardown:
  after \<^verbatim>\<open>subscribe\<close> the trace holds no teardown event, although the observer is
  terminated and the teardown is assigned. No later \<^verbatim>\<open>next\<close>, \<^verbatim>\<open>error\<close> or
  \<^verbatim>\<open>complete\<close> changes anything; \<^verbatim>\<open>unsubscribe()\<close> on the returned subscription invokes
  the teardown. The first conjunct is about any producer script that contains
  \<^verbatim>\<open>complete()\<close>, the second about \<^verbatim>\<open>Observable.from(vs)\<close>, whose teardown prints
  \<^verbatim>\<open>unsubscribed\<close>.
\<close>

theorem teardown_orphaned_by_synchronous_complete:
  assumes "Complete \<in> set cs"
    and "Observable_subscribe (script_producer cs log_teardown)
           (log_handlers hn he hc) [] = (sub, s)"
    and "Observable_subscribe (Observable_from console_log vs)
           (log_handlers hn he hc) [] = (sub', s')"
  shows "(CalledTeardown \<notin> set (snd s) \<and> isUnsubscribed (fst s)
      \<and> u_unsubscribe (fst s) = Some log_teardown
      \<and> (Unsubscribe \<notin> set later \<longrightarrow> run_calls later s = s)
      \<and> unsubscribe sub s = (fst s, snd s @ [CalledTeardown]))
    \<and> (ConsoleLog ''unsubscribed'' \<notin> set (snd s') \<and> isUnsubscribed (fst s')
      \<and> u_unsubscribe (fst s') = Some (console_log ''unsubscribed'')
      \<and> (Unsubscribe \<notin> set later \<longrightarrow> run_calls later s' = s')
      \<and> unsubscribe sub' s' = (fst s', snd s' @ [ConsoleLog ''unsubscribed'']))"
proof
  have trm: "list_ex is_terminal cs"
    using assms(1) by (auto simp: list_ex_iff intro: bexI [of _ Complete])
  have sub: "sub = \<lparr>unsubscribe = Observer_unsubscribe\<rparr>"
    and s: "s = (log_observer hn he hc True True, emitted_all hn he hc False False cs)"
    using assms(2) trm by (simp_all add: subscribe_script_log log_observer_assign)
  have "run_calls later s = s" if "Unsubscribe \<notin> set later"
    using that by (intro run_calls_terminated) (simp_all add: s log_observer_def)
  then show "CalledTeardown \<notin> set (snd s) \<and> isUnsubscribed (fst s)
      \<and> u_unsubscribe (fst s) = Some log_teardown
      \<and> (Unsubscribe \<notin> set later \<longrightarrow> run_calls later s = s)
      \<and> unsubscribe sub s = (fst s, snd s @ [CalledTeardown])"
    using emitted_all_no_teardown [of hn he hc False cs]
    by (simp add: s sub log_observer_def log_teardown_def)
next
  have sub: "sub' = \<lparr>unsubscribe = Observer_unsubscribe\<rparr>"
    and s: "s' = ((log_observer hn he hc False True)
                    \<lparr>u_unsubscribe := Some (console_log ''unsubscribed'')\<rparr>,
                  (if hn then map CalledNext vs else []) @
                  (if hc then [CalledComplete] else []))"
    using assms(3) by (simp_all add: subscribe_from_log)
  have "run_calls later s' = s'" if "Unsubscribe \<notin> set later"
    using that by (intro run_calls_terminated) (simp_all add: s log_observer_def)
  then show "ConsoleLog ''unsubscribed'' \<notin> set (snd s') \<and> isUnsubscribed (fst s')
      \<and> u_unsubscribe (fst s') = Some (console_log ''unsubscribed'')
      \<and> (Unsubscribe \<notin> set later \<longrightarrow> run_calls later s' = s')
      \<and> unsubscribe sub' s' = (fst s', snd s' @ [ConsoleLog ''unsubscribed''])"
    by (auto simp: s sub log_observer_def console_log_def)
qed

theorem teardown_orphaned_by_synchronous_complete_witness:
  "Complete \<in> set [Next (1::nat), Complete :: (nat, string) call]
   \<and> Unsubscribe \<notin> set [Next (3::nat), Complete, Error ''late'']
   \<and> snd (snd (Observable_subscribe (script_producer [Next (1::nat), Complete] log_teardown)
        (log_handlers True True True) ([] :: (nat, string) trace))) =
      [CalledNext 1, CalledComplete]
   \<and> snd (run_calls [Next (3::nat), Complete, Error ''late'']
        (snd (Observable_subscribe (script_producer [Next (1::nat), Complete] log_teardown)
          (log_handlers True True True) ([] :: (nat, string) trace)))) =
      [CalledNext 1, CalledComplete]
   \<and> snd (unsubscribe
        (fst (Observable_subscribe (script_producer [Next (1::nat), Complete] log_teardown)
          (log_handlers True True True) ([] :: (nat, string) trace)))
        (snd (Observable_subscribe (script_producer [Next (1::nat), Complete] log_teardown)
          (log_handlers True True True) ([] :: (nat, string) trace)))) =
      [CalledNext 1, CalledComplete, CalledTeardown]
   \<and> snd (snd (Observable_subscribe (Observable_from console_log [1::nat, 2])
        (log_handlers True True True) ([] :: (nat, string) trace))) =
      [CalledNext 1, CalledNext 2, CalledComplete]
   \<and> snd (unsubscribe
        (fst (Observable_subscribe (Observable_from console_log [1::nat, 2])
          (log_handlers True True True) ([] :: (nat, string) trace)))
        (snd (Observable_subscribe (Observable_from console_log [1::nat, 2])
          (log_handlers True True True) ([] :: (nat, string) trace)))) =
      [CalledNext 1, CalledNext 2, CalledComplete, ConsoleLog ''unsubscribed'']"
  using teardown_orphaned_by_synchronous_complete
    [where cs = "[Next (1::nat), Complete :: (nat, string) call]"
      and hn = True and he = True and hc = True
      and sub = "fst (Observable_subscribe
          (script_producer [Next (1::nat), Complete] log_teardown)
          (log_handlers True True True) ([] :: (nat, string) trace))"
      and s = "snd (Observable_subscribe
          (script_producer [Next (1::nat), Complete] log_teardown)
          (log_handlers True True True) ([] :: (nat, string) trace))"
      and vs = "[1::nat, 2]"
      and sub' = "fst (Observable_subscribe (Observable_from console_log [1::nat, 2])
          (log_handlers True True True) ([] :: (nat, string) trace))"
      and s' = "snd (Observable_subscribe (Observable_from console_log [1::nat, 2])
          (log_handlers True True True) ([] :: (nat, string) trace))"
      and later = "[Next (3::nat), Complete, Error ''late'']"]
  by (simp add: subscribe_script_log subscribe_from_log log_observer_def
        log_teardown_def console_log_def)

subsection \<open>C4: order preservation\<close>

text \<open>
  C4: subscribing to \<^verbatim>\<open>Observable.from(vs)\<close> with a next and a complete handler calls
  the next handler with the values of \<open>vs\<close> in their order, then the complete handler
  once, and never the error handler, present or not. The first conjunct reads this off
  the trace; the second says it for arbitrary handlers \<open>f\<close> and \<open>g\<close> on any world: the
  world after \<^verbatim>\<open>subscribe\<close> is \<open>g\<close> applied to the result of applying \<open>f\<close> to each
  value in turn. The producer runs inside \<^verbatim>\<open>subscribe\<close>, so no \<^verbatim>\<open>unsubscribe()\<close> can
  fall between two values.
\<close>

theorem from_preserves_order:
  "snd (snd (Observable_subscribe (Observable_from console_log vs)
        (log_handlers True he True) tr)) =
     tr @ map CalledNext vs @ [CalledComplete]
   \<and> snd (snd (Observable_subscribe (Observable_from clog vs)
        \<lparr>next_handler = Some f, error_handler = eh, complete_handler = Some g\<rparr> w)) =
     g (forEach vs f w)"
  by (simp add: subscribe_from_log)
     (simp add: Observable_subscribe_def Observable_from_def new_Observer_def
        forEach_next_handler Let_def)

subsection \<open>C5: \<^verbatim>\<open>unsubscribe()\<close> after \<^verbatim>\<open>from([1,2,3])\<close> has completed\<close>

text \<open>
  C5 as the specification states it: after \<^verbatim>\<open>h1(1), h1(2), h1(3), h3()\<close> the
  \<^verbatim>\<open>unsubscribe()\<close> of the returned subscription has no further observable effect and
  does not execute the teardown. In the code \<^verbatim>\<open>subscribe\<close> has assigned the teardown of
  \<^verbatim>\<open>from\<close> by then, and \<^verbatim>\<open>unsubscribe()\<close> calls it: the line \<^verbatim>\<open>unsubscribed\<close> is
  printed, the trace grows by one event.
\<close>

theorem unsubscribe_after_from_counterexample:
  "snd (unsubscribe
     (fst (Observable_subscribe (Observable_from console_log [1, 2, 3 :: int])
        (log_handlers True True True) ([] :: (int, string) trace)))
     (snd (Observable_subscribe (Observable_from console_log [1, 2, 3 :: int])
        (log_handlers True True True) ([] :: (int, string) trace))))
   = [CalledNext 1, CalledNext 2, CalledNext 3, CalledComplete, ConsoleLog ''unsubscribed'']
  \<and> snd (unsubscribe
     (fst (Observable_subscribe (Observable_from console_log [1, 2, 3 :: int])
        (log_handlers True True True) ([] :: (int, string) trace)))
     (snd (Observable_subscribe (Observable_from console_log [1, 2, 3 :: int])
        (log_handlers True True True) ([] :: (int, string) trace))))
   \<noteq> snd (snd (Observable_subscribe (Observable_from console_log [1, 2, 3 :: int])
        (log_handlers True True True) ([] :: (int, string) trace)))"
  by (simp add: subscribe_from_log log_observer_def console_log_def)

text \<open>
  C5, amended: after a subscription to \<^verbatim>\<open>Observable.from(vs)\<close> with all three handlers
  has delivered the values and the completion, \<^verbatim>\<open>unsubscribe()\<close> on the returned
  subscription invokes no handler and leaves the observer as it is, and it executes the
  teardown once: the one further effect is the printed line \<^verbatim>\<open>unsubscribed\<close>.
\<close>

theorem unsubscribe_after_from:
  "Observable_subscribe (Observable_from console_log vs)
       (log_handlers True True True) [] = (sub, s)
   \<Longrightarrow> snd s = map CalledNext vs @ [CalledComplete]
     \<and> unsubscribe sub s = (fst s, snd s @ [ConsoleLog ''unsubscribed''])"
  by (auto simp: subscribe_from_log log_observer_def console_log_def)

theorem unsubscribe_after_from_witness:
  "snd (snd (Observable_subscribe (Observable_from console_log [1, 2, 3 :: int])
        (log_handlers True True True) ([] :: (int, string) trace))) =
     [CalledNext 1, CalledNext 2, CalledNext 3, CalledComplete]
   \<and> unsubscribe
     (fst (Observable_subscribe (Observable_from console_log [1, 2, 3 :: int])
        (log_handlers True True True) ([] :: (int, string) trace)))
     (snd (Observable_subscribe (Observable_from console_log [1, 2, 3 :: int])
        (log_handlers True True True) ([] :: (int, string) trace))) =
     (fst (snd (Observable_subscribe (Observable_from console_log [1, 2, 3 :: int])
        (log_handlers True True True) ([] :: (int, string) trace))),
      [CalledNext 1, CalledNext 2, CalledNext 3, CalledComplete,
       ConsoleLog ''unsubscribed''])"
  using unsubscribe_after_from
    [where vs = "[1, 2, 3 :: int]"
      and sub = "fst (Observable_subscribe (Observable_from console_log [1, 2, 3 :: int])
        (log_handlers True True True) ([] :: (int, string) trace))"
      and s = "snd (Observable_subscribe (Observable_from console_log [1, 2, 3 :: int])
        (log_handlers True True True) ([] :: (int, string) trace))"]
  by (simp add: subscribe_from_log)

subsection \<open>C6: a producer that only calls \<^verbatim>\<open>error("boom")\<close>\<close>

text \<open>
  C6 as the specification states it: the error handler is called once with
  \<^verbatim>\<open>"boom"\<close>, the other handlers never, and the teardown is invoked exactly once. When
  the producer calls \<^verbatim>\<open>observer.error("boom")\<close> in its body, the call happens inside
  \<^verbatim>\<open>subscribe\<close>, before the teardown is assigned: the handler runs, the teardown does
  not.
\<close>

theorem synchronous_error_counterexample:
  "snd (snd (Observable_subscribe (script_producer [Error ''boom''] log_teardown)
       (log_handlers True True True) ([] :: (nat, string) trace)))
     = [CalledError ''boom'']
   \<and> count_list
       (snd (snd (Observable_subscribe (script_producer [Error ''boom''] log_teardown)
          (log_handlers True True True) ([] :: (nat, string) trace))))
       CalledTeardown \<noteq> 1"
  by (simp add: subscribe_script_log)

text \<open>
  C6, amended: the error handler is called exactly once with the error and the next and
  complete handlers never. The teardown is invoked exactly once when the producer calls
  \<^verbatim>\<open>error\<close> after \<^verbatim>\<open>subscribe\<close> has returned (third conjunct). When the producer
  calls \<^verbatim>\<open>error\<close> in its body, \<^verbatim>\<open>subscribe\<close> invokes no teardown (first conjunct); it
  leaves the teardown assigned, and a later \<^verbatim>\<open>unsubscribe()\<close> on the subscription
  invokes it (second conjunct).
\<close>

theorem error_only_producer:
  "snd (Observable_subscribe (script_producer [Error e] log_teardown)
       (log_handlers True True True) []) =
     (log_observer True True True True True, [CalledError e])
   \<and> unsubscribe
       (fst (Observable_subscribe (script_producer [Error e] log_teardown)
          (log_handlers True True True) []))
       (snd (Observable_subscribe (script_producer [Error e] log_teardown)
          (log_handlers True True True) [])) =
     (log_observer True True True True True, [CalledError e, CalledTeardown])
   \<and> Observer_error e (snd (Observable_subscribe (script_producer [] log_teardown)
       (log_handlers True True True) [])) =
     (log_observer True True True True True, [CalledError e, CalledTeardown])"
  by (simp add: subscribe_script_log log_observer_assign)
     (simp add: log_observer_def log_handlers_def log_teardown_def Let_def)

subsection \<open>C7: \<^verbatim>\<open>error(err)\<close>\<close>

text \<open>
  C7: on an observer that is not terminated, \<^verbatim>\<open>error(err)\<close> calls the error handler if
  there is one, then sets the flag and invokes the teardown if there is one; without an
  error handler the error is dropped and only the flag and the teardown remain. On a
  terminated observer \<^verbatim>\<open>error(err)\<close> changes nothing: neither the observer nor the world.
\<close>

theorem error_behaviour:
  "(\<not> isUnsubscribed obs \<longrightarrow>
      Observer_error err (obs, w) =
        (obs\<lparr>isUnsubscribed := True\<rparr>,
         (case u_unsubscribe obs of Some td \<Rightarrow> td | None \<Rightarrow> id)
           ((case error_handler (handlers obs) of Some h \<Rightarrow> h err | None \<Rightarrow> id) w)))
   \<and> (\<not> isUnsubscribed obs \<longrightarrow> error_handler (handlers obs) = None \<longrightarrow>
      Observer_error err (obs, w) =
        (obs\<lparr>isUnsubscribed := True\<rparr>,
         case u_unsubscribe obs of Some td \<Rightarrow> td w | None \<Rightarrow> w))
   \<and> (isUnsubscribed obs \<longrightarrow> Observer_error err (obs, w) = (obs, w))"
  by (auto simp: Let_def split: option.splits)

theorem error_behaviour_witness:
  "Observer_error ''boom''
     (log_observer True True True True False
        :: (nat, string, (nat, string) trace) Observer, []) =
     (log_observer True True True True True, [CalledError ''boom'', CalledTeardown])
   \<and> Observer_error ''boom''
     (log_observer True False True True False
        :: (nat, string, (nat, string) trace) Observer, []) =
     (log_observer True False True True True, [CalledTeardown])
   \<and> Observer_error ''boom''
     (log_observer True True True True True
        :: (nat, string, (nat, string) trace) Observer, []) =
     (log_observer True True True True True, [])"
  using error_behaviour [of "log_observer True True True True False" "''boom''" "[]"]
    error_behaviour [of "log_observer True False True True False" "''boom''" "[]"]
    error_behaviour [of "log_observer True True True True True" "''boom''" "[]"]
  by (simp add: log_observer_def log_handlers_def log_teardown_def)

subsection \<open>C8: an empty handlers object\<close>

text \<open>
  C8 as the specification states it: with the handlers object \<^verbatim>\<open>{}\<close> nothing raises,
  every notification is discarded, and the teardown still executes on termination. The
  last part fails for a producer that terminates the observer in its body, as the one of
  \<^verbatim>\<open>from\<close> does: after \<^verbatim>\<open>subscribe\<close> the observer is terminated and nothing was
  printed.
\<close>

theorem empty_handlers_counterexample:
  "isUnsubscribed (fst (snd (Observable_subscribe (Observable_from console_log [1 :: nat])
       (empty_handlers :: (nat, string, (nat, string) trace) ObserverHandlers) [])))
   \<and> snd (snd (Observable_subscribe (Observable_from console_log [1 :: nat])
       (empty_handlers :: (nat, string, (nat, string) trace) ObserverHandlers) [])) = []"
  by (simp add: Observable_subscribe_def Observable_from_def new_Observer_def
        empty_handlers_def Let_def)

text \<open>
  C8, amended: with the handlers object \<^verbatim>\<open>{}\<close>, whatever calls the producer makes in
  its body, \<^verbatim>\<open>subscribe\<close> returns and leaves the world as it was: every notification is
  discarded, and a termination inside the producer executes no teardown. The teardown
  executes on a termination that comes after \<^verbatim>\<open>subscribe\<close> has returned: on the first
  \<^verbatim>\<open>error\<close>, \<^verbatim>\<open>complete\<close> or \<^verbatim>\<open>unsubscribe\<close> when the producer has not terminated the
  observer, and on \<^verbatim>\<open>unsubscribe()\<close> of the subscription in any case. A later \<^verbatim>\<open>next\<close>
  is discarded as well.
\<close>

theorem empty_handlers_discard:
  assumes "Observable_subscribe (script_producer cs td) empty_handlers w = (sub, s)"
  shows "snd s = w
    \<and> (\<not> list_ex is_terminal cs \<longrightarrow> is_terminal c \<longrightarrow> snd (do_call c s) = td w)
    \<and> snd (Observer_next v s) = w
    \<and> snd (unsubscribe sub s) = td w"
proof -
  define r where "r = run_calls cs (new_Observer empty_handlers, w)"
  have s: "s = ((fst r)\<lparr>u_unsubscribe := Some td\<rparr>, snd r)"
    and sub: "sub = \<lparr>unsubscribe = Observer_unsubscribe\<rparr>"
    using assms by (simp_all add: subscribe_script r_def)
  have w: "snd r = w"
    by (simp add: r_def run_calls_discards new_Observer_def)
  have "handlers (fst r) = empty_handlers"
    by (simp add: r_def run_calls_handlers new_Observer_def)
  then have h: "next_handler (handlers (fst r)) = None"
      "error_handler (handlers (fst r)) = None"
      "complete_handler (handlers (fst r)) = None"
    by (simp_all add: empty_handlers_def)
  have b: "isUnsubscribed (fst r) \<longleftrightarrow> list_ex is_terminal cs"
    by (simp add: r_def run_calls_isUnsubscribed new_Observer_def)
  have "snd (do_call c s) = td w" if "\<not> list_ex is_terminal cs" "is_terminal c"
    using that by (cases c) (simp_all add: s w h b Let_def)
  moreover have "snd (Observer_next v s) = w"
    by (simp add: s w h)
  moreover have "snd (unsubscribe sub s) = td w"
    by (simp add: s sub w Let_def)
  ultimately show ?thesis by (simp add: s w)
qed

theorem empty_handlers_discard_witness:
  "\<not> list_ex is_terminal [Next (1::nat), Next 2 :: (nat, string) call]
   \<and> is_terminal (Complete :: (nat, string) call)
   \<and> snd (snd (Observable_subscribe
        (script_producer [Next (1::nat), Next 2 :: (nat, string) call] log_teardown)
        empty_handlers ([] :: (nat, string) trace))) = []
   \<and> snd (do_call Complete (snd (Observable_subscribe
        (script_producer [Next (1::nat), Next 2 :: (nat, string) call] log_teardown)
        empty_handlers ([] :: (nat, string) trace)))) = [CalledTeardown]
   \<and> snd (Observer_next 3 (snd (Observable_subscribe
        (script_producer [Next (1::nat), Next 2 :: (nat, string) call] log_teardown)
        empty_handlers ([] :: (nat, string) trace)))) = []"
  using empty_handlers_discard
    [where cs = "[Next (1::nat), Next 2 :: (nat, string) call]"
      and td = log_teardown and w = "[] :: (nat, string) trace" and c = Complete and v = 3
      and sub = "fst (Observable_subscribe
        (script_producer [Next (1::nat), Next 2 :: (nat, string) call] log_teardown)
        empty_handlers ([] :: (nat, string) trace))"
      and s = "snd (Observable_subscribe
        (script_producer [Next (1::nat), Next 2 :: (nat, string) call] log_teardown)
        empty_handlers ([] :: (nat, string) trace))"]
  by (simp add: log_teardown_def)

subsection \<open>C9: silence after \<^verbatim>\<open>unsubscribe()\<close>\<close>

text \<open>
  C9: once \<^verbatim>\<open>unsubscribe()\<close> has been called on an observer, every later \<^verbatim>\<open>next(v)\<close>
  and \<^verbatim>\<open>complete()\<close> (and \<^verbatim>\<open>error(e)\<close>) invokes no handler: any sequence of such calls
  leaves the observer and the world exactly as \<^verbatim>\<open>unsubscribe()\<close> left them. This holds
  for every observer, so also for one to which nothing has been delivered yet.
\<close>

theorem post_unsubscribe_silence:
  "Unsubscribe \<notin> set cs \<Longrightarrow>
     run_calls cs (Observer_unsubscribe (obs, w)) = Observer_unsubscribe (obs, w)"
  by (rule run_calls_terminated) (auto simp: Let_def split: option.splits)

theorem post_unsubscribe_silence_witness:
  "Unsubscribe \<notin> set [Next (1::nat), Complete, Next 2, Error ''boom'']
   \<and> run_calls [Next (1::nat), Complete, Next 2, Error ''boom'']
        (Observer_unsubscribe (log_observer True True True False False, [])) =
      (log_observer True True True False True, [])"
  using post_unsubscribe_silence
    [of "[Next (1::nat), Complete, Next 2, Error ''boom'']"
        "log_observer True True True False False" "[]"]
  by (simp add: log_observer_def)

subsection \<open>C10: the empty sequence\<close>

text \<open>
  C10: subscribing to \<^verbatim>\<open>Observable.from([])\<close> with any handlers calls the complete
  handler exactly once if it is present and calls nothing else: the world after
  \<^verbatim>\<open>subscribe\<close> is the complete handler applied once to the world before, or the world
  before when there is none. \<^verbatim>\<open>subscribe\<close> returns the subscription, whose
  \<^verbatim>\<open>unsubscribe\<close> is the observer's, and leaves the observer terminated with the teardown
  assigned. On a trace: the only event is the call of the complete handler.
\<close>

theorem from_empty:
  "Observable_subscribe (Observable_from clog []) h w =
     (\<lparr>unsubscribe = Observer_unsubscribe\<rparr>,
      (\<lparr>handlers = h, isUnsubscribed = True, u_unsubscribe = Some (clog ''unsubscribed'')\<rparr>,
       case complete_handler h of Some c \<Rightarrow> c w | None \<Rightarrow> w))
   \<and> snd (snd (Observable_subscribe (Observable_from console_log [])
                  (log_handlers hn he hc) [])) =
       (if hc then [CalledComplete] else [])"
  by (auto simp: Observable_subscribe_def Observable_from_def new_Observer_def
        log_handlers_def Let_def split: option.splits)

end
